theory Spec2Isabelle
  imports Complex_Main "HOL-Library.Word"
begin

section \<open>The power method of gtsam/linear/PowerMethod.h\<close>

text \<open>
  The class \<^verbatim>\<open>PowerMethod<Operator>\<close> estimates the dominant eigenpair of an operator by
  repeated multiplication and normalisation. This theory embeds the class member by
  member and settles the properties claimed of it.

  Conventions of the embedding:
  \<^item> a \<^verbatim>\<open>double\<close> is a real number: rounding, infinities and NaN are not modelled;
  \<^item> \<^verbatim>\<open>size_t\<close> is a 64-bit word, so \<^verbatim>\<open>++nrIterations_\<close> wraps as in C++;
  \<^item> a \<^verbatim>\<open>Vector\<close> is the list of its coefficients;
  \<^item> a member function takes the object as its first argument, and a member function
    that is not \<^verbatim>\<open>const\<close> returns the updated object with its result;
  \<^item> a member \<^verbatim>\<open>name_\<close> of the class is the field \<open>name_m\<close> of the record;
  \<^item> the class has no \<^verbatim>\<open>throw\<close>, no assertion and no early return, so every member is
    a total function of its arguments.
\<close>

subsection \<open>The vector operations used by the class\<close>

type_synonym Vector = "real list"

type_synonym size_t = "64 word"

text \<open>
  Modelled from the spec: the vector library (Eigen) is not part of the sources. The
  spec names its operations: dot product, Euclidean norm, normalisation to unit
  Euclidean norm, difference and scaling of vectors. They are written here over the
  reals. \<open>x.normalize()\<close> divides by the norm when the squared norm is positive and
  leaves the vector as it is otherwise, as Eigen does. Eigen requires both arguments of
  \<open>dot\<close> and of \<open>-\<close> to have the same size; on lists of different length the
  definitions below use the common prefix. Over the reals a squared norm is 0 only for
  the zero vector and never too large; on \<^verbatim>\<open>double\<close> it can underflow and overflow.
  No statement below relies on normalisation giving a vector of norm 1: the operations
  are evaluated on the vectors of the examples only.
\<close>

definition dot :: "Vector \<Rightarrow> Vector \<Rightarrow> real" where
  "dot x y = sum_list (map2 (*) x y)"

definition squaredNorm :: "Vector \<Rightarrow> real" where
  "squaredNorm x = dot x x"

definition norm_v :: "Vector \<Rightarrow> real" where
  "norm_v x = sqrt (squaredNorm x)"

definition normalize_v :: "Vector \<Rightarrow> Vector" where
  "normalize_v x =
     (let z = squaredNorm x in if z > 0 then map (\<lambda>c. c / sqrt z) x else x)"

definition minus_v :: "Vector \<Rightarrow> Vector \<Rightarrow> Vector" where
  "minus_v x y = map2 (-) x y"

definition scale_v :: "real \<Rightarrow> Vector \<Rightarrow> Vector" where
  "scale_v a x = map ((*) a) x"

definition Zero :: "int \<Rightarrow> Vector" where
  "Zero n = replicate (nat n) 0"

subsection \<open>The operator\<close>

text \<open>
  The template argument \<^verbatim>\<open>Operator\<close> "just needs multiplication operator" and a member
  \<^verbatim>\<open>rows()\<close>: it is a record of these two. \<open>multiply A x\<close> is \<^verbatim>\<open>A * x\<close>.
\<close>

record Operator =
  rows :: int
  multiply :: "Vector \<Rightarrow> Vector"

text \<open>
  A dense matrix, given by its rows, as an operator. The product is meant for vectors
  with as many coefficients as the matrix has columns, which is what Eigen requires.
\<close>

definition Matrix :: "real list list \<Rightarrow> Operator" where
  "Matrix M = \<lparr>rows = int (length M), multiply = (\<lambda>x. map (\<lambda>r. dot r x) M)\<rparr>"

subsection \<open>The class\<close>

record PowerMethod =
  A_m :: Operator
  dim_m :: int
  nrIterations_m :: size_t
  ritzValue_m :: real
  ritzVector_m :: Vector

text \<open>\<^verbatim>\<open>Vector powerIteration(const Vector &x) const\<close>\<close>

definition powerIteration :: "PowerMethod \<Rightarrow> Vector \<Rightarrow> Vector" where
  "powerIteration this x = (let y = multiply (A_m this) x in normalize_v y)"

text \<open>\<^verbatim>\<open>Vector powerIteration() const\<close>\<close>

definition powerIteration0 :: "PowerMethod \<Rightarrow> Vector" where
  "powerIteration0 this = powerIteration this (ritzVector_m this)"

text \<open>
  The constructor. \<open>initial\<close> is the optional start vector; \<open>Random n\<close> stands for the
  vector that \<^verbatim>\<open>Vector::Random(n)\<close> draws, which is evaluated only when \<open>initial\<close> is
  absent. The body has no check and no \<^verbatim>\<open>throw\<close>.
\<close>

definition PowerMethod_ctor ::
    "Operator \<Rightarrow> Vector option \<Rightarrow> (int \<Rightarrow> Vector) \<Rightarrow> PowerMethod" where
  "PowerMethod_ctor A initial Random =
     (let dim = rows A;
          x0 = (case initial of Some v \<Rightarrow> v | None \<Rightarrow> Random dim);
          x0 = normalize_v x0;
          this = \<lparr>A_m = A, dim_m = dim, nrIterations_m = 0,
                  ritzValue_m = 0, ritzVector_m = Zero dim\<rparr>
      in this\<lparr>ritzVector_m := powerIteration this x0\<rparr>)"

text \<open>\<^verbatim>\<open>bool converged(double tol) const\<close>\<close>

definition converged :: "PowerMethod \<Rightarrow> real \<Rightarrow> bool" where
  "converged this tol =
     (let x = ritzVector_m this;
          ritzValue = dot x (multiply (A_m this) x);
          error = norm_v (minus_v (multiply (A_m this) x) (scale_v ritzValue x))
      in error < tol)"

text \<open>The accessors.\<close>

definition nrIterations :: "PowerMethod \<Rightarrow> size_t" where
  "nrIterations this = nrIterations_m this"

definition eigenvalue :: "PowerMethod \<Rightarrow> real" where
  "eigenvalue this = ritzValue_m this"

definition eigenvector :: "PowerMethod \<Rightarrow> Vector" where
  "eigenvector this = ritzVector_m this"

text \<open>
  The body of the \<^verbatim>\<open>for\<close> loop of \<^verbatim>\<open>compute\<close>: the three assignments, in the order of
  the source.
\<close>

definition loop_body :: "PowerMethod \<Rightarrow> PowerMethod" where
  "loop_body this =
     (let this = this\<lparr>nrIterations_m := nrIterations_m this + 1\<rparr>;
          this = this\<lparr>ritzVector_m := powerIteration0 this\<rparr>
      in this\<lparr>ritzValue_m :=
                dot (ritzVector_m this) (multiply (A_m this) (ritzVector_m this))\<rparr>)"

text \<open>
  The loop \<^verbatim>\<open>for (size_t i = 0; i < maxIterations && !isConverged; i++)\<close> from the state
  \<open>(i, isConverged, this)\<close>. It ends because \<open>i\<close> stays below \<open>maxIterations\<close>, so
  that \<open>i++\<close> never wraps.
\<close>

function compute_loop ::
    "size_t \<Rightarrow> real \<Rightarrow> size_t \<Rightarrow> bool \<Rightarrow> PowerMethod \<Rightarrow> bool \<times> PowerMethod" where
  "compute_loop maxIterations tol i isConverged this =
     (if i < maxIterations \<and> \<not> isConverged then
        (let this = loop_body this;
             isConverged = converged this tol
         in compute_loop maxIterations tol (i + 1) isConverged this)
      else (isConverged, this))"
  by pat_completeness auto

termination compute_loop
proof (relation "measure (\<lambda>(m, tol, i, c, this). unat m - unat i)", goal_cases)
  case 1
  show ?case by simp
next
  case (2 maxIterations tol i isConverged this this' isConverged')
  then have "unat i < unat maxIterations"
    by (simp add: word_less_nat_alt)
  moreover have "unat maxIterations < 2 ^ 64"
    using unsigned_less [of maxIterations, where 'a = nat] by simp
  ultimately have "unat i + unat (1 :: size_t) < 2 ^ LENGTH(64)"
    by simp
  then have "unat (i + 1) = unat i + unat (1 :: size_t)"
    by (simp only: unat_add_lem [THEN iffD1])
  with \<open>unat i < unat maxIterations\<close> show ?case
    by simp
qed

declare compute_loop.simps [simp del]

text \<open>\<^verbatim>\<open>bool compute(size_t maxIterations, double tol)\<close>\<close>

definition compute :: "PowerMethod \<Rightarrow> size_t \<Rightarrow> real \<Rightarrow> bool \<times> PowerMethod" where
  "compute this maxIterations tol = compute_loop maxIterations tol 0 False this"

subsection \<open>Refinement steps as the specification words them\<close>

text \<open>
  The specification describes one refinement step as: replace \<open>ritzVector\<close> by the
  normalised operator application, recompute \<open>ritzValue\<close> as the Rayleigh quotient of
  the new vector, increment the iteration count. \<open>spec_refinement_step\<close> follows these
  words, in this order; \<open>spec_compute n tol\<close> performs at most \<open>n\<close> such steps, returns
  true at the first step after which the convergence test passes, and false when all
  \<open>n\<close> steps are done without it passing.
\<close>

definition spec_refinement_step :: "PowerMethod \<Rightarrow> PowerMethod" where
  "spec_refinement_step this =
     (let this = this\<lparr>ritzVector_m := powerIteration this (ritzVector_m this)\<rparr>;
          this = this\<lparr>ritzValue_m :=
                   dot (ritzVector_m this) (multiply (A_m this) (ritzVector_m this))\<rparr>
      in this\<lparr>nrIterations_m := nrIterations_m this + 1\<rparr>)"

fun spec_compute :: "nat \<Rightarrow> real \<Rightarrow> PowerMethod \<Rightarrow> bool \<times> PowerMethod" where
  "spec_compute 0 tol this = (False, this)"
| "spec_compute (Suc n) tol this =
     (let this = spec_refinement_step this
      in if converged this tol then (True, this) else spec_compute n tol this)"

subsection \<open>Sequences of calls\<close>

text \<open>
  A caller drives a solver through successive calls of \<^verbatim>\<open>compute\<close>, each with its own
  \<open>(maxIterations, tol)\<close>. \<open>compute_calls\<close> lists what each call returns together
  with the solver as the call leaves it.
\<close>

fun compute_calls :: "PowerMethod \<Rightarrow> (size_t \<times> real) list \<Rightarrow> (bool \<times> PowerMethod) list" where
  "compute_calls this [] = []"
| "compute_calls this ((maxIterations, tol) # cs) =
     (let r = compute this maxIterations tol in r # compute_calls (snd r) cs)"

subsection \<open>Operators and solvers used as examples\<close>

text \<open>The diagonal matrix \<open>diag(3, 1)\<close>.\<close>

definition diag31 :: Operator where
  "diag31 = Matrix [[3, 0], [0, 1]]"

text \<open>
  An operator that is not a matrix: it declares \<open>n\<close> rows and multiplies a vector of
  any size by the factor \<open>a\<close>.
\<close>

definition Scaling :: "int \<Rightarrow> real \<Rightarrow> Operator" where
  "Scaling n a = \<lparr>rows = n, multiply = scale_v a\<rparr>"

text \<open>A draw of \<^verbatim>\<open>Vector::Random\<close>, for the examples: every coefficient is 1.\<close>

definition Ones :: "int \<Rightarrow> Vector" where
  "Ones n = replicate (nat n) 1"

text \<open>The zero matrix of size 2.\<close>

definition zero22 :: Operator where
  "zero22 = Matrix [[0, 0], [0, 0]]"

text \<open>The solver constructed on \<open>diag(3, 1)\<close> with the initial vector \<open>(2, 0)\<close>.\<close>

definition solver31 :: PowerMethod where
  "solver31 = PowerMethod_ctor diag31 (Some [2, 0]) Ones"

text \<open>
  The matrix that exchanges the two coefficients. Its eigenvalues are 1 and -1, so it
  has no dominant one and the iteration need not converge.
\<close>

definition swap22 :: Operator where
  "swap22 = Matrix [[0, 1], [1, 0]]"

text \<open>The solver constructed on it with the initial vector \<open>(3, 4)\<close>.\<close>

definition solver_swap :: PowerMethod where
  "solver_swap = PowerMethod_ctor swap22 (Some [3, 4]) Ones"

text \<open>The solver constructed on the zero matrix with the initial vector \<open>(1, 0)\<close>.\<close>

definition solver0 :: PowerMethod where
  "solver0 = PowerMethod_ctor zero22 (Some [1, 0]) Ones"

section \<open>Properties\<close>

subsection \<open>A square root\<close>

lemma sqrt_9: "sqrt 9 = 3"
  by (rule real_sqrt_unique) simp_all

subsection \<open>One pass of the loop\<close>

lemma loop_body_fields:
  "A_m (loop_body this) = A_m this"
  "dim_m (loop_body this) = dim_m this"
  "nrIterations_m (loop_body this) = nrIterations_m this + 1"
  "ritzVector_m (loop_body this) = normalize_v (multiply (A_m this) (ritzVector_m this))"
  "ritzValue_m (loop_body this) =
     dot (ritzVector_m (loop_body this))
         (multiply (A_m (loop_body this)) (ritzVector_m (loop_body this)))"
  by (simp_all add: loop_body_def Let_def powerIteration0_def powerIteration_def)

lemma loop_body_spec_refinement_step: "loop_body this = spec_refinement_step this"
  by (simp add: loop_body_def spec_refinement_step_def Let_def powerIteration0_def
      powerIteration_def)

subsection \<open>The loop\<close>

lemma compute_loop_done: "compute_loop m tol i True this = (True, this)"
  by (simp add: compute_loop.simps)

lemma compute_loop_spec_compute:
  "k = unat m - unat i \<Longrightarrow> i \<le> m \<Longrightarrow>
   compute_loop m tol i False this = spec_compute k tol this"
proof (induction k arbitrary: i this)
  case 0
  then have "\<not> i < m" by (simp add: word_less_nat_alt word_le_nat_alt)
  then show ?case by (simp add: compute_loop.simps)
next
  case (Suc k)
  then have lt: "i < m" by (simp add: word_less_nat_alt)
  then have "unat i < unat m" by (simp add: word_less_nat_alt)
  moreover have "unat m < 2 ^ 64"
    using unsigned_less [of m, where 'a = nat] by simp
  ultimately have "unat i + unat (1 :: size_t) < 2 ^ LENGTH(64)" by simp
  then have inc: "unat (i + 1) = unat i + 1"
    using unat_add_lem [THEN iffD1, of i 1] by simp
  with Suc.prems have k: "k = unat m - unat (i + 1)" by simp
  from inc \<open>unat i < unat m\<close> have le: "i + 1 \<le> m" by (simp add: word_le_nat_alt)
  show ?case
  proof (cases "converged (loop_body this) tol")
    case True
    with lt show ?thesis
      by (simp add: compute_loop.simps [of m tol i] compute_loop_done
          loop_body_spec_refinement_step [symmetric])
  next
    case False
    with lt Suc.IH [OF k le, of "loop_body this"] show ?thesis
      by (simp add: compute_loop.simps [of m tol i]
          loop_body_spec_refinement_step [symmetric])
  qed
qed

lemma compute_spec_compute: "compute this maxIterations tol = spec_compute (unat maxIterations) tol this"
  unfolding compute_def by (rule compute_loop_spec_compute) simp_all

subsection \<open>Runs of refinement steps\<close>

lemma spec_compute_char:
  "\<exists>k. k \<le> n \<and> snd (spec_compute n tol this) = (spec_refinement_step ^^ k) this \<and>
       (\<forall>j. 0 < j \<and> j < k \<longrightarrow> \<not> converged ((spec_refinement_step ^^ j) this) tol) \<and>
       (fst (spec_compute n tol this) \<longleftrightarrow> 0 < k \<and> converged ((spec_refinement_step ^^ k) this) tol) \<and>
       (\<not> fst (spec_compute n tol this) \<longrightarrow> k = n)"
proof (induction n arbitrary: this)
  case 0
  show ?case by simp
next
  case (Suc n)
  define s where "s = spec_refinement_step this"
  have shift: "(spec_refinement_step ^^ Suc j) this = (spec_refinement_step ^^ j) s" for j
    unfolding s_def by (simp only: funpow_Suc_right o_apply)
  have one: "(spec_refinement_step ^^ Suc 0) this = s"
    unfolding s_def by simp
  have unfold: "spec_compute (Suc n) tol this = (if converged s tol then (True, s) else spec_compute n tol s)"
    unfolding s_def by (simp add: Let_def)
  show ?case
  proof (cases "converged s tol")
    case True
    have "Suc 0 \<le> Suc n" by simp
    moreover have "snd (spec_compute (Suc n) tol this) = (spec_refinement_step ^^ Suc 0) this"
      using True by (simp only: unfold one if_True snd_conv)
    moreover have "\<forall>j. 0 < j \<and> j < Suc 0 \<longrightarrow> \<not> converged ((spec_refinement_step ^^ j) this) tol"
      by simp
    moreover have "fst (spec_compute (Suc n) tol this) \<longleftrightarrow>
        0 < Suc 0 \<and> converged ((spec_refinement_step ^^ Suc 0) this) tol"
      using True by (simp only: unfold one if_True fst_conv) simp
    moreover have "\<not> fst (spec_compute (Suc n) tol this) \<longrightarrow> Suc 0 = Suc n"
      using True by (simp only: unfold if_True fst_conv) simp
    ultimately show ?thesis by blast
  next
    case False
    from Suc.IH [of s] obtain k where k:
      "k \<le> n" "snd (spec_compute n tol s) = (spec_refinement_step ^^ k) s"
      "\<forall>j. 0 < j \<and> j < k \<longrightarrow> \<not> converged ((spec_refinement_step ^^ j) s) tol"
      "fst (spec_compute n tol s) \<longleftrightarrow> 0 < k \<and> converged ((spec_refinement_step ^^ k) s) tol"
      "\<not> fst (spec_compute n tol s) \<longrightarrow> k = n"
      by blast
    have eq: "spec_compute (Suc n) tol this = spec_compute n tol s"
      using False by (simp only: unfold if_False)
    have below: "\<not> converged ((spec_refinement_step ^^ j) this) tol" if "0 < j" "j < Suc k" for j
    proof -
      from that obtain j' where j: "j = Suc j'" by (cases j) simp_all
      show ?thesis
      proof (cases "j' = 0")
        case True
        with j False show ?thesis by (simp only: one simp_thms)
      next
        case nz: False
        with j that k(3) have "\<not> converged ((spec_refinement_step ^^ j') s) tol" by simp
        with j show ?thesis by (simp only: shift simp_thms)
      qed
    qed
    have "Suc k \<le> Suc n" using k(1) by simp
    moreover have "snd (spec_compute (Suc n) tol this) = (spec_refinement_step ^^ Suc k) this"
      using k(2) by (simp only: eq shift)
    moreover have "\<forall>j. 0 < j \<and> j < Suc k \<longrightarrow> \<not> converged ((spec_refinement_step ^^ j) this) tol"
      using below by blast
    moreover have "fst (spec_compute (Suc n) tol this) \<longleftrightarrow>
        0 < Suc k \<and> converged ((spec_refinement_step ^^ Suc k) this) tol"
    proof (cases "k = 0")
      case True
      with k(4) False show ?thesis by (simp only: eq shift) simp
    next
      case nz: False
      with k(4) show ?thesis by (simp only: eq shift) simp
    qed
    moreover have "\<not> fst (spec_compute (Suc n) tol this) \<longrightarrow> Suc k = Suc n"
      using k(5) by (simp only: eq) simp
    ultimately show ?thesis by blast
  qed
qed


lemma spec_refinement_step_fields:
  "A_m (spec_refinement_step this) = A_m this"
  "nrIterations_m (spec_refinement_step this) = nrIterations_m this + 1"
  "ritzVector_m (spec_refinement_step this) = normalize_v (multiply (A_m this) (ritzVector_m this))"
  "ritzValue_m (spec_refinement_step this) =
     dot (ritzVector_m (spec_refinement_step this))
         (multiply (A_m (spec_refinement_step this)) (ritzVector_m (spec_refinement_step this)))"
  using loop_body_fields [of this] by (simp_all only: loop_body_spec_refinement_step)

lemma steps_fields:
  "A_m ((spec_refinement_step ^^ k) this) = A_m this"
  "nrIterations_m ((spec_refinement_step ^^ k) this) = nrIterations_m this + of_nat k"
  by (induction k) (simp_all add: spec_refinement_step_fields)

lemma steps_ritzValue:
  "0 < k \<Longrightarrow>
   ritzValue_m ((spec_refinement_step ^^ k) this) =
     dot (ritzVector_m ((spec_refinement_step ^^ k) this))
         (multiply (A_m ((spec_refinement_step ^^ k) this)) (ritzVector_m ((spec_refinement_step ^^ k) this)))"
  by (cases k) (simp_all add: spec_refinement_step_fields(4))

lemma spec_compute_steps:
  "\<exists>k. k \<le> n \<and> (0 < n \<longrightarrow> 0 < k) \<and> snd (spec_compute n tol this) = (spec_refinement_step ^^ k) this"
proof -
  from spec_compute_char [of n tol this] obtain k where k:
    "k \<le> n" "snd (spec_compute n tol this) = (spec_refinement_step ^^ k) this"
    "fst (spec_compute n tol this) \<longleftrightarrow> 0 < k \<and> converged ((spec_refinement_step ^^ k) this) tol"
    "\<not> fst (spec_compute n tol this) \<longrightarrow> k = n"
    by blast
  have "0 < k" if "0 < n"
  proof (rule ccontr)
    assume "\<not> 0 < k"
    with k(3) have "\<not> fst (spec_compute n tol this)" by simp
    with k(4) \<open>\<not> 0 < k\<close> that show False by simp
  qed
  with k(1,2) show ?thesis by blast
qed

lemma ctor_fields:
  "PowerMethod_ctor A initial Random =
   \<lparr>A_m = A, dim_m = rows A, nrIterations_m = 0, ritzValue_m = 0,
    ritzVector_m = normalize_v (multiply A (normalize_v
       (case initial of Some v \<Rightarrow> v | None \<Rightarrow> Random (rows A))))\<rparr>"
  by (simp add: PowerMethod_ctor_def Let_def powerIteration_def)

lemma unat_add_of_nat:
  "unat (w :: size_t) + k < 2 ^ 64 \<Longrightarrow> unat (w + of_nat k) = unat w + k"
proof -
  assume a: "unat w + k < 2 ^ 64"
  then have "k < 2 ^ 64" by simp
  then have k: "unat (of_nat k :: size_t) = k" by (simp add: unat_of_nat)
  with a have "unat w + unat (of_nat k :: size_t) < 2 ^ LENGTH(64)" by simp
  then have "unat (w + of_nat k) = unat w + unat (of_nat k :: size_t)"
    by (simp only: unat_add_lem [THEN iffD1])
  with k show ?thesis by simp
qed

subsection \<open>The example solvers on \<open>diag(3, 1)\<close> and on the zero matrix\<close>

lemma diag31_multiply: "multiply diag31 [a, b] = [3 * a, b]"
  by (simp add: diag31_def Matrix_def dot_def)

lemma normalize_2: "normalize_v [2, 0] = [1, 0]"
  by (simp add: normalize_v_def squaredNorm_def dot_def)

lemma normalize_3: "normalize_v [3, 0] = [1, 0]"
  by (simp add: normalize_v_def squaredNorm_def dot_def sqrt_9)

lemma solver31_eq:
  "solver31 = \<lparr>A_m = diag31, dim_m = 2, nrIterations_m = 0, ritzValue_m = 0,
               ritzVector_m = [1, 0]\<rparr>"
proof -
  have "rows diag31 = 2" by (simp add: diag31_def Matrix_def)
  then show ?thesis
    by (simp add: solver31_def PowerMethod_ctor_def Let_def powerIteration_def
        diag31_multiply normalize_2 normalize_3)
qed

lemma converged_31:
  "converged \<lparr>A_m = diag31, dim_m = d, nrIterations_m = k, ritzValue_m = v,
              ritzVector_m = [1, 0]\<rparr> tol \<longleftrightarrow> 0 < tol"
  by (simp add: converged_def Let_def diag31_multiply dot_def norm_v_def squaredNorm_def
      minus_v_def scale_v_def)

lemma loop_body_31:
  "loop_body \<lparr>A_m = diag31, dim_m = d, nrIterations_m = k, ritzValue_m = v,
              ritzVector_m = [1, 0]\<rparr> =
   \<lparr>A_m = diag31, dim_m = d, nrIterations_m = k + 1, ritzValue_m = 3,
    ritzVector_m = [1, 0]\<rparr>"
  by (simp add: loop_body_def Let_def powerIteration0_def powerIteration_def
      diag31_multiply normalize_3 dot_def)

lemma compute_31:
  "0 < n \<Longrightarrow> 0 < tol \<Longrightarrow>
   compute \<lparr>A_m = diag31, dim_m = d, nrIterations_m = k, ritzValue_m = v,
            ritzVector_m = [1, 0]\<rparr> n tol =
   (True, \<lparr>A_m = diag31, dim_m = d, nrIterations_m = k + 1, ritzValue_m = 3,
           ritzVector_m = [1, 0]\<rparr>)"
  by (simp add: compute_def compute_loop.simps [of n tol 0] loop_body_31 converged_31
      compute_loop_done)

lemma solver31_converged: "converged solver31 tol \<longleftrightarrow> 0 < tol"
  by (simp add: solver31_eq converged_31)

lemma zero22_multiply: "multiply zero22 [a, b] = [0, 0]"
  by (simp add: zero22_def Matrix_def dot_def)

lemma normalize_0: "normalize_v [0, 0] = [0, 0]"
  by (simp add: normalize_v_def squaredNorm_def dot_def)

lemma normalize_1: "normalize_v [1, 0] = [1, 0]"
  by (simp add: normalize_v_def squaredNorm_def dot_def)

lemma solver0_eq:
  "solver0 = \<lparr>A_m = zero22, dim_m = 2, nrIterations_m = 0, ritzValue_m = 0,
              ritzVector_m = [0, 0]\<rparr>"
proof -
  have "rows zero22 = 2" by (simp add: zero22_def Matrix_def)
  then show ?thesis
    by (simp add: solver0_def ctor_fields zero22_multiply normalize_1 normalize_0)
qed

subsection \<open>The example solver on the exchange matrix\<close>

lemma sqrt_25: "sqrt 25 = 5"
  by (rule real_sqrt_unique) simp_all

lemma sqrt_49_625: "sqrt (49 / 625) = 7 / 25"
  by (rule real_sqrt_unique) (simp_all add: power2_eq_square)

lemma swap22_multiply: "multiply swap22 [a, b] = [b, a]"
  by (simp add: swap22_def Matrix_def dot_def)

lemma normalize_34: "normalize_v [3, 4] = [3 / 5, 4 / 5]"
  by (simp add: normalize_v_def squaredNorm_def dot_def sqrt_25)

lemma normalize_unit_43: "normalize_v [4 / 5, 3 / 5] = [4 / 5, 3 / 5]"
  by (simp add: normalize_v_def squaredNorm_def dot_def)

lemma normalize_unit_34: "normalize_v [3 / 5, 4 / 5] = [3 / 5, 4 / 5]"
  by (simp add: normalize_v_def squaredNorm_def dot_def)

lemma solver_swap_eq:
  "solver_swap = \<lparr>A_m = swap22, dim_m = 2, nrIterations_m = 0, ritzValue_m = 0,
                   ritzVector_m = [4 / 5, 3 / 5]\<rparr>"
proof -
  have "rows swap22 = 2" by (simp add: swap22_def Matrix_def)
  then show ?thesis
    by (simp add: solver_swap_def ctor_fields swap22_multiply normalize_34 normalize_unit_43)
qed

lemma loop_body_swap:
  "loop_body \<lparr>A_m = swap22, dim_m = d, nrIterations_m = k, ritzValue_m = v,
              ritzVector_m = [4 / 5, 3 / 5]\<rparr> =
   \<lparr>A_m = swap22, dim_m = d, nrIterations_m = k + 1, ritzValue_m = 24 / 25,
    ritzVector_m = [3 / 5, 4 / 5]\<rparr>"
  "loop_body \<lparr>A_m = swap22, dim_m = d, nrIterations_m = k, ritzValue_m = v,
              ritzVector_m = [3 / 5, 4 / 5]\<rparr> =
   \<lparr>A_m = swap22, dim_m = d, nrIterations_m = k + 1, ritzValue_m = 24 / 25,
    ritzVector_m = [4 / 5, 3 / 5]\<rparr>"
  by (simp_all add: loop_body_def Let_def powerIteration0_def powerIteration_def
      swap22_multiply normalize_unit_34 normalize_unit_43 dot_def)

lemma converged_swap:
  "converged \<lparr>A_m = swap22, dim_m = d, nrIterations_m = k, ritzValue_m = v,
              ritzVector_m = [4 / 5, 3 / 5]\<rparr> tol \<longleftrightarrow> 7 / 25 < tol"
  "converged \<lparr>A_m = swap22, dim_m = d, nrIterations_m = k, ritzValue_m = v,
              ritzVector_m = [3 / 5, 4 / 5]\<rparr> tol \<longleftrightarrow> 7 / 25 < tol"
  by (simp_all add: converged_def Let_def swap22_multiply dot_def norm_v_def squaredNorm_def
      minus_v_def scale_v_def sqrt_49_625)

lemma compute_swap:
  "compute solver_swap 2 (1 / 10) =
   (False, \<lparr>A_m = swap22, dim_m = 2, nrIterations_m = 2, ritzValue_m = 24 / 25,
            ritzVector_m = [4 / 5, 3 / 5]\<rparr>)"
  by (simp add: compute_def solver_swap_eq compute_loop.simps [of 2 "1 / 10"]
      loop_body_swap converged_swap)

subsection \<open>Claims\<close>

text \<open>
  C1 (as amended). A call \<^verbatim>\<open>compute(0, tol)\<close> returns false, whatever the convergence
  test would say, and leaves the solver as it is: \<open>isConverged\<close> starts as false and
  the loop, the only place where the test is made, is not entered.
\<close>

theorem compute_zero_iterations: "compute this 0 tol = (False, this)"
  by (simp add: compute_def compute_loop.simps)

text \<open>
  C1 as stated fails: on the solver constructed on \<open>diag(3, 1)\<close> from \<open>(2, 0)\<close> the
  convergence test passes for the tolerance \<open>10\<^sup>-\<^sup>6\<close>, and \<^verbatim>\<open>compute(0, tol)\<close> returns
  false.
\<close>

theorem compute_zero_iterations_counterexample:
  "converged solver31 (1 / 1000000) \<and>
   fst (compute solver31 0 (1 / 1000000)) \<noteq> converged solver31 (1 / 1000000)"
  by (simp add: solver31_converged compute_def compute_loop.simps)

text \<open>
  C2 (as amended). The constructor compares no sizes and raises nothing: for every
  operator and every initial vector, of any length or absent, it yields a solver with
  iteration count 0, \<open>ritzValue\<close> 0 and, as \<open>ritzVector\<close>, the normalised product of
  the operator with the normalised start vector. A start vector of a size the
  operator cannot take can only fail inside the operator's own multiplication.
\<close>

theorem construction_unchecked:
  "PowerMethod_ctor A initial Random =
   \<lparr>A_m = A, dim_m = rows A, nrIterations_m = 0, ritzValue_m = 0,
    ritzVector_m = normalize_v (multiply A (normalize_v
       (case initial of Some v \<Rightarrow> v | None \<Rightarrow> Random (rows A))))\<rparr>"
  by (rule ctor_fields)

text \<open>
  C2 as stated fails: an operator that declares 5 rows and doubles its argument is given
  an initial vector of length 3, and construction yields a solver.
\<close>

theorem construction_mismatch_counterexample:
  "int (length [2, 0, 0 :: real]) \<noteq> rows (Scaling 5 2) \<and>
   PowerMethod_ctor (Scaling 5 2) (Some [2, 0, 0]) Ones =
   \<lparr>A_m = Scaling 5 2, dim_m = 5, nrIterations_m = 0, ritzValue_m = 0,
    ritzVector_m = [1, 0, 0]\<rparr>"
  by (simp add: ctor_fields Scaling_def scale_v_def normalize_v_def squaredNorm_def dot_def
      real_sqrt_mult)

text \<open>
  C3 (as amended). The constructor sets \<open>ritzValue\<close> to 0, whatever the Rayleigh
  quotient of the vector it stores. After a call \<^verbatim>\<open>compute(n, tol)\<close> with \<open>n > 0\<close>, on any
  solver, the stored \<open>ritzValue\<close> is the Rayleigh quotient \<open>x \<cdot> A x\<close> of the stored
  \<open>ritzVector\<close> \<open>x\<close>.
\<close>

theorem ritzValue_after_update:
  "ritzValue_m (PowerMethod_ctor A initial Random) = 0 \<and>
   (0 < n \<longrightarrow>
      ritzValue_m (snd (compute this n tol)) =
        dot (ritzVector_m (snd (compute this n tol)))
            (multiply (A_m (snd (compute this n tol))) (ritzVector_m (snd (compute this n tol)))))"
proof -
  have "ritzValue_m (PowerMethod_ctor A initial Random) = 0"
    by (simp add: ctor_fields)
  moreover have "ritzValue_m (snd (compute this n tol)) =
        dot (ritzVector_m (snd (compute this n tol)))
            (multiply (A_m (snd (compute this n tol))) (ritzVector_m (snd (compute this n tol))))"
    if "0 < n"
  proof -
    from that have "0 < unat n" by (simp add: word_less_nat_alt)
    with spec_compute_steps [of "unat n" tol this] obtain k where
      "0 < k" "snd (spec_compute (unat n) tol this) = (spec_refinement_step ^^ k) this"
      by blast
    then show ?thesis
      by (simp only: compute_spec_compute steps_ritzValue)
  qed
  ultimately show ?thesis by blast
qed

text \<open>
  An instance of C3: after two iterations on the exchange matrix the stored Ritz value
  and the Rayleigh quotient of the stored vector are both \<open>24/25\<close>.
\<close>

theorem ritzValue_after_update_witness:
  "(0 :: size_t) < 2 \<and>
   ritzValue_m (snd (compute solver_swap 2 (1 / 10))) = 24 / 25 \<and>
   dot (ritzVector_m (snd (compute solver_swap 2 (1 / 10))))
       (multiply (A_m (snd (compute solver_swap 2 (1 / 10))))
          (ritzVector_m (snd (compute solver_swap 2 (1 / 10))))) = 24 / 25"
  using ritzValue_after_update [of swap22 "Some [3, 4]" Ones 2 solver_swap "1 / 10"]
  by (simp add: compute_swap)

text \<open>
  C3 as stated fails immediately after construction: the solver on \<open>diag(3, 1)\<close> stores the
  Ritz value 0, and the Rayleigh quotient of its vector \<open>(1, 0)\<close> is 3.
\<close>

theorem ritzValue_after_construction_counterexample:
  "ritzValue_m solver31 = 0 \<and>
   dot (ritzVector_m solver31) (multiply (A_m solver31) (ritzVector_m solver31)) = 3 \<and>
   ritzValue_m solver31 \<noteq>
     dot (ritzVector_m solver31) (multiply (A_m solver31) (ritzVector_m solver31))"
  by (simp add: solver31_eq diag31_multiply dot_def)

text \<open>
  C4. \<^verbatim>\<open>compute(n, tol)\<close> is the run of refinement steps that the specification
  describes. It performs some number \<open>k \<le> n\<close> of steps, each one replacing the vector
  by \<^verbatim>\<open>powerIteration\<close> of it, recomputing the Ritz value as the Rayleigh quotient of
  the new vector and incrementing the count (the source increments first, which gives
  the same solver). The convergence test fails after each step before the last; the
  call returns true exactly when at least one step was made and the test passes after
  the last one, and when it returns false all \<open>n\<close> steps were made.
\<close>

theorem compute_refinement_loop:
  "compute this n tol = spec_compute (unat n) tol this \<and>
   (\<exists>k. k \<le> unat n \<and> snd (compute this n tol) = (spec_refinement_step ^^ k) this \<and>
        (\<forall>j. 0 < j \<and> j < k \<longrightarrow> \<not> converged ((spec_refinement_step ^^ j) this) tol) \<and>
        (fst (compute this n tol) \<longleftrightarrow> 0 < k \<and> converged ((spec_refinement_step ^^ k) this) tol) \<and>
        (\<not> fst (compute this n tol) \<longrightarrow> k = unat n))"
  using spec_compute_char [of "unat n" tol this] by (simp only: compute_spec_compute simp_thms)

text \<open>
  Instances of C4. With a budget of 2 iterations and the tolerance \<open>10\<^sup>-\<^sup>6\<close> the solver
  on \<open>diag(3, 1)\<close> converges after the first step and makes no second one. With the
  same budget and the tolerance \<open>1/10\<close> the solver on the exchange matrix makes both
  steps, the residual staying at \<open>7/25\<close>, and returns false.
\<close>

theorem compute_refinement_loop_witness:
  "compute solver31 2 (1 / 1000000) = spec_compute (unat (2 :: size_t)) (1 / 1000000) solver31 \<and>
   fst (compute solver31 2 (1 / 1000000)) \<and>
   snd (compute solver31 2 (1 / 1000000)) = spec_refinement_step solver31 \<and>
   nrIterations (snd (compute solver31 2 (1 / 1000000))) = 1 \<and>
   eigenvalue (snd (compute solver31 2 (1 / 1000000))) = 3 \<and>
   eigenvector (snd (compute solver31 2 (1 / 1000000))) = [1, 0] \<and>
   compute solver_swap 2 (1 / 10) = spec_compute (unat (2 :: size_t)) (1 / 10) solver_swap \<and>
   \<not> fst (compute solver_swap 2 (1 / 10)) \<and>
   snd (compute solver_swap 2 (1 / 10)) =
     spec_refinement_step (spec_refinement_step solver_swap) \<and>
   nrIterations (snd (compute solver_swap 2 (1 / 10))) = 2 \<and>
   eigenvalue (snd (compute solver_swap 2 (1 / 10))) = 24 / 25 \<and>
   eigenvector (snd (compute solver_swap 2 (1 / 10))) = [4 / 5, 3 / 5]"
proof -
  have run: "compute solver31 2 (1 / 1000000) =
      (True, \<lparr>A_m = diag31, dim_m = 2, nrIterations_m = 1, ritzValue_m = 3,
              ritzVector_m = [1, 0]\<rparr>)"
    by (simp add: solver31_eq compute_31)
  have step: "spec_refinement_step solver31 =
      \<lparr>A_m = diag31, dim_m = 2, nrIterations_m = 1, ritzValue_m = 3, ritzVector_m = [1, 0]\<rparr>"
    by (simp add: solver31_eq loop_body_31 loop_body_spec_refinement_step [symmetric])
  have steps: "spec_refinement_step (spec_refinement_step solver_swap) =
      \<lparr>A_m = swap22, dim_m = 2, nrIterations_m = 2, ritzValue_m = 24 / 25,
       ritzVector_m = [4 / 5, 3 / 5]\<rparr>"
    by (simp add: solver_swap_eq loop_body_swap loop_body_spec_refinement_step [symmetric])
  have "compute solver31 2 (1 / 1000000) = spec_compute (unat (2 :: size_t)) (1 / 1000000) solver31"
    using compute_refinement_loop [of solver31 2 "1 / 1000000"] by (rule conjunct1)
  moreover have "fst (compute solver31 2 (1 / 1000000))"
    by (simp add: run)
  moreover have "snd (compute solver31 2 (1 / 1000000)) = spec_refinement_step solver31"
    by (simp add: run step)
  moreover have "nrIterations (snd (compute solver31 2 (1 / 1000000))) = 1"
    by (simp add: run nrIterations_def)
  moreover have "eigenvalue (snd (compute solver31 2 (1 / 1000000))) = 3"
    by (simp add: run eigenvalue_def)
  moreover have "eigenvector (snd (compute solver31 2 (1 / 1000000))) = [1, 0]"
    by (simp add: run eigenvector_def)
  moreover have "compute solver_swap 2 (1 / 10) = spec_compute (unat (2 :: size_t)) (1 / 10) solver_swap"
    using compute_refinement_loop [of solver_swap 2 "1 / 10"] by (rule conjunct1)
  moreover have "\<not> fst (compute solver_swap 2 (1 / 10))"
    by (simp add: compute_swap)
  moreover have "snd (compute solver_swap 2 (1 / 10)) =
      spec_refinement_step (spec_refinement_step solver_swap)"
    by (simp add: compute_swap steps)
  moreover have "nrIterations (snd (compute solver_swap 2 (1 / 10))) = 2"
    by (simp add: compute_swap nrIterations_def)
  moreover have "eigenvalue (snd (compute solver_swap 2 (1 / 10))) = 24 / 25"
    by (simp add: compute_swap eigenvalue_def)
  moreover have "eigenvector (snd (compute solver_swap 2 (1 / 10))) = [4 / 5, 3 / 5]"
    by (simp add: compute_swap eigenvector_def)
  ultimately show ?thesis by blast
qed

text \<open>
  C5 (as amended). \<^verbatim>\<open>powerIteration\<close> tests no norm and raises nothing: for every
  vector, whatever the norm of the product with the operator, it returns what
  \<^verbatim>\<open>normalize()\<close> of the vector library makes of that product.
\<close>

theorem powerIteration_unchecked:
  "powerIteration this x = normalize_v (multiply (A_m this) x)"
  by (simp add: powerIteration_def)

text \<open>
  C5 as stated fails: on the zero matrix the product of \<open>(1, 0)\<close> is the zero vector,
  of norm 0. Its squared norm is not positive, so \<^verbatim>\<open>normalize()\<close> does not divide, and
  \<^verbatim>\<open>powerIteration\<close> returns the zero vector, which is not a unit vector.
\<close>

theorem powerIteration_zero_product_counterexample:
  "norm_v (multiply (A_m solver0) [1, 0]) = 0 \<and>
   powerIteration solver0 [1, 0] = [0, 0] \<and>
   norm_v (powerIteration solver0 [1, 0]) \<noteq> 1"
  by (simp add: solver0_eq zero22_multiply powerIteration_def normalize_0 norm_v_def
      squaredNorm_def dot_def)

text \<open>
  C6 is not stated. Whether the stored vector has norm 1 is a matter of the arithmetic
  of \<^verbatim>\<open>double\<close>: the squared norm that \<^verbatim>\<open>normalize()\<close> computes can round to 0 for a
  non-zero vector, which is then left as it is, and it can exceed the largest
  \<^verbatim>\<open>double\<close>. Real numbers, which stand for \<^verbatim>\<open>double\<close> here, have neither effect, so
  a statement about them would say nothing of the norm the program leaves.
\<close>

text \<open>
  C7. \<^verbatim>\<open>converged(tol)\<close> is true exactly when the Ritz residual norm
  \<open>\<parallel>A x - \<lambda> x\<parallel>\<close> of the stored vector \<open>x\<close>, with \<open>\<lambda> = x \<cdot> A x\<close>, is strictly below
  \<open>tol\<close>. The member is \<^verbatim>\<open>const\<close>: it yields this truth value and nothing else, the
  solver stays as it is.
\<close>

theorem converged_residual:
  "converged this tol \<longleftrightarrow>
     norm_v (minus_v (multiply (A_m this) (ritzVector_m this))
               (scale_v (dot (ritzVector_m this) (multiply (A_m this) (ritzVector_m this)))
                  (ritzVector_m this))) < tol"
  by (simp add: converged_def Let_def)

text \<open>
  C8 (as amended). A call \<^verbatim>\<open>compute(n, tol)\<close> adds to \<^verbatim>\<open>nrIterations()\<close> the number
  \<open>k\<close> of steps it makes, \<open>k \<le> n\<close> and \<open>k \<ge> 1\<close> when \<open>n > 0\<close>; the counter is a
  \<^verbatim>\<open>size_t\<close> and the sum wraps at \<open>2\<^sup>6\<^sup>4\<close>. So after the first call that follows
  construction the counter is at most \<open>n\<close>, and a call does not decrease the counter
  as long as the previous count plus \<open>n\<close> stays below \<open>2\<^sup>6\<^sup>4\<close>.
\<close>

theorem nrIterations_accumulates:
  "(\<exists>k. k \<le> unat n \<and> (0 < n \<longrightarrow> 0 < k) \<and>
        nrIterations (snd (compute this n tol)) = nrIterations this + of_nat k) \<and>
   nrIterations (snd (compute (PowerMethod_ctor A initial Random) n tol)) \<le> n \<and>
   (unat (nrIterations this) + unat n < 2 ^ 64 \<longrightarrow>
      nrIterations this \<le> nrIterations (snd (compute this n tol)))"
proof -
  have bound: "unat n < 2 ^ 64"
    using unsigned_less [of n, where 'a = nat] by simp
  have steps: "\<exists>k. k \<le> unat n \<and> (0 < n \<longrightarrow> 0 < k) \<and>
        nrIterations (snd (compute s n tol)) = nrIterations s + of_nat k" for s
    using spec_compute_steps [of "unat n" tol s]
    by (auto simp: compute_spec_compute nrIterations_def steps_fields word_less_nat_alt)
  have first: "nrIterations (snd (compute (PowerMethod_ctor A initial Random) n tol)) \<le> n"
  proof -
    from steps [of "PowerMethod_ctor A initial Random"] obtain k where k: "k \<le> unat n"
      "nrIterations (snd (compute (PowerMethod_ctor A initial Random) n tol)) = of_nat k"
      by (auto simp: nrIterations_def ctor_fields)
    from k(1) bound have "unat (of_nat k :: size_t) = k" by (simp add: unat_of_nat)
    with k show ?thesis by (simp add: word_le_nat_alt)
  qed
  have mono: "nrIterations this \<le> nrIterations (snd (compute this n tol))"
    if "unat (nrIterations this) + unat n < 2 ^ 64"
  proof -
    from steps [of this] obtain k where k: "k \<le> unat n"
      "nrIterations (snd (compute this n tol)) = nrIterations this + of_nat k"
      by blast
    from k(1) that have "unat (nrIterations this) + k < 2 ^ 64" by simp
    then have "unat (nrIterations this + of_nat k) = unat (nrIterations this) + k"
      by (rule unat_add_of_nat)
    with k(2) show ?thesis by (simp add: word_le_nat_alt)
  qed
  from steps [of this] first mono show ?thesis by blast
qed

text \<open>
  An instance of C8: two iterations on the exchange matrix, from the count 0 to the
  count 2.
\<close>

theorem nrIterations_accumulates_witness:
  "(0 :: size_t) < 2 \<and>
   unat (nrIterations solver_swap) + unat (2 :: size_t) < 2 ^ 64 \<and>
   nrIterations solver_swap \<le> nrIterations (snd (compute solver_swap 2 (1 / 10))) \<and>
   nrIterations (snd (compute solver_swap 2 (1 / 10))) = nrIterations solver_swap + of_nat 2 \<and>
   nrIterations (snd (compute (PowerMethod_ctor swap22 (Some [3, 4]) Ones) 2 (1 / 10))) \<le> 2"
  using nrIterations_accumulates [of 2 solver_swap "1 / 10" swap22 "Some [3, 4]" Ones]
  by (simp add: compute_swap nrIterations_def solver_swap_def [symmetric])
    (simp add: solver_swap_eq)

text \<open>
  C8 as stated fails on a second call: after two calls \<^verbatim>\<open>compute(1, tol)\<close> on the
  solver on \<open>diag(3, 1)\<close> the counter is 2, above the \<open>maxIterations = 1\<close> of the call.
\<close>

theorem nrIterations_second_call_counterexample:
  "nrIterations (snd (compute (snd (compute solver31 1 (1 / 1000000))) 1 (1 / 1000000))) = 2 \<and>
   \<not> nrIterations (snd (compute (snd (compute solver31 1 (1 / 1000000))) 1 (1 / 1000000))) \<le> 1"
  by (simp add: solver31_eq compute_31 nrIterations_def word_le_nat_alt)

text \<open>
  C9. With an explicit initial vector the random draw plays no part: whatever
  \<^verbatim>\<open>Vector::Random\<close> would return, construction on the same operator and the same
  initial vector gives the same solver, and any sequence of \<^verbatim>\<open>compute\<close> calls with the
  same parameters then returns the same values and leaves the same Ritz pairs.
\<close>

theorem explicit_initial_deterministic:
  "PowerMethod_ctor A (Some v) Random1 = PowerMethod_ctor A (Some v) Random2 \<and>
   compute_calls (PowerMethod_ctor A (Some v) Random1) cs =
   compute_calls (PowerMethod_ctor A (Some v) Random2) cs"
proof -
  have "PowerMethod_ctor A (Some v) Random1 = PowerMethod_ctor A (Some v) Random2"
    by (simp add: PowerMethod_ctor_def)
  then show ?thesis by simp
qed

text \<open>
  C10. \<^verbatim>\<open>converged(tol)\<close> reads the operator and the stored vector only: two solvers
  that agree on these give the same answer, whatever their stored \<open>ritzValue\<close>. In
  particular the solver just constructed on \<open>diag(3, 1)\<close> from \<open>(2, 0)\<close> passes the
  test for the tolerance \<open>10\<^sup>-\<^sup>6\<close> while its \<^verbatim>\<open>eigenvalue()\<close> is still 0.
\<close>

theorem converged_ignores_ritzValue:
  assumes "A_m s1 = A_m s2" and "ritzVector_m s1 = ritzVector_m s2"
  shows "converged s1 tol = converged s2 tol \<and>
         converged (PowerMethod_ctor diag31 (Some [2, 0]) Random) (1 / 1000000) \<and>
         eigenvalue (PowerMethod_ctor diag31 (Some [2, 0]) Random) = 0"
proof -
  have ctor: "PowerMethod_ctor diag31 (Some [2, 0]) Random = solver31"
    by (simp add: solver31_def PowerMethod_ctor_def)
  from assms have "converged s1 tol = converged s2 tol"
    by (simp add: converged_def)
  moreover have "converged solver31 (1 / 1000000)"
    by (simp add: solver31_converged)
  moreover have "eigenvalue solver31 = 0"
    by (simp add: eigenvalue_def solver31_eq)
  ultimately show ?thesis
    by (simp only: ctor simp_thms)
qed

text \<open>
  An instance of C10: the constructed solver and a copy of it whose \<open>ritzValue\<close> is set
  to 3 give the same answer.
\<close>

theorem converged_ignores_ritzValue_witness:
  "A_m solver31 = A_m (solver31\<lparr>ritzValue_m := 3\<rparr>) \<and>
   ritzVector_m solver31 = ritzVector_m (solver31\<lparr>ritzValue_m := 3\<rparr>) \<and>
   ritzValue_m solver31 \<noteq> ritzValue_m (solver31\<lparr>ritzValue_m := 3\<rparr>) \<and>
   converged solver31 (1 / 1000000) = converged (solver31\<lparr>ritzValue_m := 3\<rparr>) (1 / 1000000)"
  using converged_ignores_ritzValue [of solver31 "solver31\<lparr>ritzValue_m := 3\<rparr>" "1 / 1000000" Ones]
  by (simp add: solver31_eq)

end
